theory Spec2Isabelle
  imports Complex_Main "HOL-Library.Word"
begin

unbundle bit_operations_syntax

section \<open>The spaCy component of QuickUMLS (quickumls/spacy\_component.py)\<close>

text \<open>
  The component is two methods of the class \<open>SpacyQuickUMLS\<close>: \<open>__init__\<close>, which
  builds the matching engine and registers two span extensions, and \<open>__call__\<close>, which
  asks the engine for the matches of a document and turns every match into an entity span
  of the document.

  The matching engine (\<open>QuickUMLS._match\<close>) is not part of this file: it is a parameter
  of the model. The objects of spaCy that \<open>__call__\<close> works on (the string store, the
  document, its tokens, its entities and the extension attributes of a span) are modelled
  by what their documented interface does:
  \<^item> \<open>StringStore.add\<close> stores a string under its 64-bit hash and keeps an entry that is
    already there; \<open>StringStore.__getitem__\<close> of a string is that hash; the hash is
    MurmurHash64A with seed 1 over the UTF-8 bytes of the string;
  \<^item> \<open>Doc.char_span\<close> (alignment mode "strict") takes its offsets as C integers; it
    is the span from the token that starts at the first offset to the token that ends at
    the second one, and \<open>None\<close> when there is no such token;
  \<^item> an extension attribute written through \<open>span._\<close> is stored in the document's
    \<open>user_data\<close> under the character offsets of the span;
  \<^item> assigning \<open>doc.ents\<close> leaves out the spans with label 0 and raises
    \<open>ValueError\<close> when a token lies in more than one of the others, before anything is
    changed.
\<close>

subsection \<open>Data\<close>

text \<open>A label is a key of the string store: an unsigned 64-bit integer.\<close>

type_synonym label = "64 word"

text \<open>
  One \<open>ngram_match_dict\<close> of the engine, with the five keys that \<open>__call__\<close> reads.
  Similarity and semantic types are only carried along, so their types are left open.
\<close>

record ('s, 'c) ngram_match =
  m_start :: int
  m_end :: int
  m_cui :: string
  m_similarity :: 's
  m_semtypes :: 'c

text \<open>A token: the character offset where it starts (\<open>token.idx\<close>) and its length.\<close>

record token =
  tok_idx :: nat
  tok_len :: nat

text \<open>A span of tokens \<open>[span_start, span_end)\<close> with its label.\<close>

record span =
  span_start :: nat
  span_end :: nat
  span_label :: label

text \<open>
  The document: its tokens, its entities (\<open>doc.ents\<close>) and the two extension attributes
  kept in \<open>doc.user_data\<close>, each a dictionary from (start\_char, end\_char) to the value.
\<close>

record ('s, 'c) doc =
  tokens :: "token list"
  ents :: "span list"
  ud_similarity :: "(int \<times> int) \<rightharpoonup> 's"
  ud_semtypes :: "(int \<times> int) \<rightharpoonup> 'c"

text \<open>
  What \<open>print(e, span, span.start, span.end)\<close> writes: the token named by the error
  message, and the start and end of the span (the text of the span is left out).
\<close>

record printed =
  p_token :: nat
  p_start :: nat
  p_end :: nat

text \<open>
  Everything \<open>__call__\<close> reads or writes: the document, the string store
  \<open>self.nlp.vocab.strings\<close> and the standard output.
\<close>

record ('s, 'c) env =
  document :: "('s, 'c) doc"
  strings :: "label \<rightharpoonup> string"
  stdout :: "printed list"

text \<open>
  The exceptions: \<open>AttributeError\<close> (an attribute of \<open>None\<close>), \<open>IndexError\<close> (a span
  whose end is before its start), \<open>OverflowError\<close> (an offset that is no C integer),
  \<open>ValueError\<close> of \<open>doc.ents\<close> with the token that lies in two spans, and
  \<open>ValueError\<close> of \<open>Span.set_extension\<close> with the name registered twice.
\<close>

datatype py_error =
  AttributeError
| IndexError
| OverflowError
| ValueError_ents nat
| ValueError_extension string

subsection \<open>The string store\<close>

text \<open>
  The store gives every string a key. The operations of the store take the function from
  strings to keys as a parameter \<open>h\<close>; the function of spaCy is \<open>hash_string\<close> below.
  \<open>strings.add(cui)\<close> keeps the entry of a key that is already stored.
\<close>

definition strings_add :: "(string \<Rightarrow> label) \<Rightarrow> (label \<rightharpoonup> string) \<Rightarrow> string \<Rightarrow> (label \<rightharpoonup> string)" where
  "strings_add h store s =
     (case store (h s) of Some old \<Rightarrow> store | None \<Rightarrow> store(h s \<mapsto> s))"

text \<open>\<open>strings[cui]\<close>, for a string: its key, whatever the store holds.\<close>

definition strings_getitem :: "(string \<Rightarrow> label) \<Rightarrow> (label \<rightharpoonup> string) \<Rightarrow> string \<Rightarrow> label" where
  "strings_getitem h store s = h s"

text \<open>
  \<open>cui in strings\<close>: the key of the string is stored; the empty string is in every
  store.
\<close>

definition strings_contains :: "(string \<Rightarrow> label) \<Rightarrow> (label \<rightharpoonup> string) \<Rightarrow> string \<Rightarrow> bool" where
  "strings_contains h store s = (s = [] \<or> store (h s) \<noteq> None)"

text \<open>
  Lines 95 and 97 together: add the code, then read its label. This is the \<open>intern\<close> of
  the specification.
\<close>

definition intern :: "(string \<Rightarrow> label) \<Rightarrow> (label \<rightharpoonup> string) \<Rightarrow> string \<Rightarrow> label \<times> (label \<rightharpoonup> string)" where
  "intern h store cui =
     (let store' = strings_add h store cui
      in (strings_getitem h store' cui, store'))"

subsection \<open>The hash of the string store\<close>

text \<open>
  spaCy's \<open>hash_string\<close> is MurmurHash64A, with seed 1, of the UTF-8 bytes of the
  string; a \<open>string\<close> here is that list of bytes. The string store takes it as the key
  of every string but the empty string and the names in its table of symbols, which have
  keys of their own; a concept code is neither.
\<close>

definition murmur_m :: "64 word" where
  "murmur_m = 0xc6a4a7935bd1e995"

text \<open>Bytes read as a little-endian number.\<close>

fun le_bytes :: "string \<Rightarrow> nat" where
  "le_bytes [] = 0"
| "le_bytes (c # cs) = of_char c + 256 * le_bytes cs"

text \<open>\<open>x ^= x >> 47\<close>.\<close>

definition shift_mix :: "64 word \<Rightarrow> 64 word" where
  "shift_mix x = x XOR drop_bit 47 x"

text \<open>\<open>k *= m; k ^= k >> r; k *= m\<close>.\<close>

definition mix_block :: "64 word \<Rightarrow> 64 word" where
  "mix_block k = shift_mix (k * murmur_m) * murmur_m"

text \<open>
  The loop over the blocks of eight bytes (\<open>h ^= k; h *= m\<close>), then the bytes that
  are left, if any (\<open>h ^= tail; h *= m\<close>).
\<close>

fun murmur_body :: "64 word \<Rightarrow> string \<Rightarrow> 64 word" where
  "murmur_body h (b0 # b1 # b2 # b3 # b4 # b5 # b6 # b7 # rest) =
     murmur_body
       ((h XOR mix_block (word_of_nat (le_bytes [b0, b1, b2, b3, b4, b5, b6, b7]))) * murmur_m)
       rest"
| "murmur_body h [] = h"
| "murmur_body h tail = (h XOR word_of_nat (le_bytes tail)) * murmur_m"

definition MurmurHash64A :: "string \<Rightarrow> 64 word \<Rightarrow> 64 word" where
  "MurmurHash64A key seed =
     (let h = murmur_body (seed XOR (word_of_nat (length key) * murmur_m)) key
      in shift_mix (shift_mix h * murmur_m))"

definition hash_string :: "string \<Rightarrow> label" where
  "hash_string s = MurmurHash64A s 1"


subsection \<open>Spans of a document\<close>

text \<open>The index of the first token that starts at a character offset.\<close>

definition token_by_start :: "token list \<Rightarrow> int \<Rightarrow> nat option" where
  "token_by_start toks c = find (\<lambda>i. int (tok_idx (toks ! i)) = c) [0..<length toks]"

text \<open>The index of the first token that ends at a character offset.\<close>

definition token_by_end :: "token list \<Rightarrow> int \<Rightarrow> nat option" where
  "token_by_end toks c =
     find (\<lambda>i. int (tok_idx (toks ! i) + tok_len (toks ! i)) = c) [0..<length toks]"

text \<open>The values of a C \<open>int\<close>.\<close>

definition c_int :: "int \<Rightarrow> bool" where
  "c_int x = (- (2 ^ 31) \<le> x \<and> x < 2 ^ 31)"

text \<open>
  \<open>doc.char_span(start_idx, end_idx, label=...)\<close>: \<open>OverflowError\<close> when an offset is
  not a C \<open>int\<close>; \<open>None\<close> when an offset is not on a token boundary; the constructor of
  \<open>Span\<close> raises \<open>IndexError\<close> when the end is before the start.
\<close>

definition char_span :: "token list \<Rightarrow> int \<Rightarrow> int \<Rightarrow> label \<Rightarrow> py_error + span option" where
  "char_span toks start_idx end_idx lab =
     (if \<not> (c_int start_idx \<and> c_int end_idx) then Inl OverflowError
      else case token_by_start toks start_idx of
        None \<Rightarrow> Inr None
      | Some a \<Rightarrow>
          (case token_by_end toks end_idx of
             None \<Rightarrow> Inr None
           | Some b \<Rightarrow>
               if a \<le> b + 1
               then Inr (Some \<lparr>span_start = a, span_end = b + 1, span_label = lab\<rparr>)
               else Inl IndexError))"

text \<open>
  \<open>span.start_char\<close> and \<open>span.end_char\<close>: where the first token of the span starts and
  where its last token ends; an empty span ends where it starts.
\<close>

definition start_char :: "token list \<Rightarrow> span \<Rightarrow> int" where
  "start_char toks sp = int (tok_idx (toks ! span_start sp))"

definition end_char :: "token list \<Rightarrow> span \<Rightarrow> int" where
  "end_char toks sp =
     (if span_start sp = span_end sp then start_char toks sp
      else int (tok_idx (toks ! (span_end sp - 1)) + tok_len (toks ! (span_end sp - 1))))"

text \<open>
  \<open>span._.similarity = v\<close> and \<open>span._.semtypes = v\<close>. The key of an attribute in
  \<open>doc.user_data\<close> is its name with \<open>start_char\<close> and \<open>end_char\<close> of the span, so
  all spans over the same characters share their attributes.
\<close>

definition set_similarity :: "('s, 'c) doc \<Rightarrow> span \<Rightarrow> 's \<Rightarrow> ('s, 'c) doc" where
  "set_similarity d sp v =
     d\<lparr>ud_similarity := (ud_similarity d)((start_char (tokens d) sp, end_char (tokens d) sp) \<mapsto> v)\<rparr>"

definition set_semtypes :: "('s, 'c) doc \<Rightarrow> span \<Rightarrow> 'c \<Rightarrow> ('s, 'c) doc" where
  "set_semtypes d sp v =
     d\<lparr>ud_semtypes := (ud_semtypes d)((start_char (tokens d) sp, end_char (tokens d) sp) \<mapsto> v)\<rparr>"

text \<open>
  Reading \<open>span._.similarity\<close> and \<open>span._.semtypes\<close>: \<open>None\<close> stands for the default of
  the extension.
\<close>

definition get_similarity :: "('s, 'c) doc \<Rightarrow> span \<Rightarrow> 's option" where
  "get_similarity d sp = ud_similarity d (start_char (tokens d) sp, end_char (tokens d) sp)"

definition get_semtypes :: "('s, 'c) doc \<Rightarrow> span \<Rightarrow> 'c option" where
  "get_semtypes d sp = ud_semtypes d (start_char (tokens d) sp, end_char (tokens d) sp)"

subsection \<open>Assigning the entities\<close>

text \<open>
  The check of \<open>doc.ents = ...\<close>: the spans are visited in order and every token of a
  span is added to the tokens seen; the first token seen twice is the error.
\<close>

fun check_spans :: "nat set \<Rightarrow> span list \<Rightarrow> nat option" where
  "check_spans seen [] = None"
| "check_spans seen (sp # sps) =
     (case find (\<lambda>i. i \<in> seen) [span_start sp..<span_end sp] of
        Some i \<Rightarrow> Some i
      | None \<Rightarrow> check_spans (seen \<union> {span_start sp..<span_end sp}) sps)"

text \<open>
  Label 0 is "no entity type": a span with label 0 takes no part in the assignment of
  \<open>doc.ents\<close>.
\<close>

definition labelled :: "span list \<Rightarrow> span list" where
  "labelled sps = filter (\<lambda>sp. span_label sp \<noteq> 0) sps"

text \<open>
  \<open>doc.ents = spans\<close>. The spans with label 0 are left out first, then the others are
  checked. The entities are kept on the tokens, so an empty span leaves no entity, and
  \<open>doc.ents\<close> gives the entities in the order of the tokens.
\<close>

definition set_ents :: "('s, 'c) doc \<Rightarrow> span list \<Rightarrow> py_error + ('s, 'c) doc" where
  "set_ents d sps =
     (case check_spans {} (labelled sps) of
        Some i \<Rightarrow> Inl (ValueError_ents i)
      | None \<Rightarrow>
          Inr (d\<lparr>ents := sort_key span_start
                  (filter (\<lambda>sp. span_start sp < span_end sp) (labelled sps))\<rparr>))"

subsection \<open>\<open>SpacyQuickUMLS.__call__\<close>\<close>

text \<open>
  The body of the inner loop (lines 90 to 109) for one \<open>ngram_match_dict\<close>. The result is
  the exception that leaves the loop, if any, and the state as the body left it: what was
  written before an exception stays written.
\<close>

definition loop_body :: "(string \<Rightarrow> label) \<Rightarrow> ('s, 'c) env \<Rightarrow> ('s, 'c) ngram_match \<Rightarrow> py_error option \<times> ('s, 'c) env" where
  "loop_body h w m =
     (let start_char_idx = m_start m;
          end_char_idx = m_end m;
          cui = m_cui m;
          (cui_label_value, store) = intern h (strings w) cui;
          w1 = w\<lparr>strings := store\<rparr>;
          d = document w1
      in case char_span (tokens d) start_char_idx end_char_idx cui_label_value of
           Inl e \<Rightarrow> (Some e, w1)
         | Inr None \<Rightarrow> (Some AttributeError, w1)
         | Inr (Some sp) \<Rightarrow>
             (let d1 = set_similarity d sp (m_similarity m);
                  d2 = set_semtypes d1 sp (m_semtypes m)
              in case set_ents d2 (ents d2 @ [sp]) of
                   Inr d3 \<Rightarrow> (None, w1\<lparr>document := d3\<rparr>)
                 | Inl (ValueError_ents i) \<Rightarrow>
                     (None, w1\<lparr>document := d2,
                                 stdout := stdout w1 @
                                   [\<lparr>p_token = i, p_start = span_start sp, p_end = span_end sp\<rparr>]\<rparr>)
                 | Inl e \<Rightarrow> (Some e, w1\<lparr>document := d2\<rparr>)))"

text \<open>The inner loop, over the matches of one group; an exception ends it.\<close>

fun inner_loop :: "(string \<Rightarrow> label) \<Rightarrow> ('s, 'c) env \<Rightarrow> ('s, 'c) ngram_match list \<Rightarrow> py_error option \<times> ('s, 'c) env" where
  "inner_loop h w [] = (None, w)"
| "inner_loop h w (m # ms) =
     (case loop_body h w m of
        (Some e, w') \<Rightarrow> (Some e, w')
      | (None, w') \<Rightarrow> inner_loop h w' ms)"

text \<open>The outer loop, over the groups.\<close>

fun outer_loop :: "(string \<Rightarrow> label) \<Rightarrow> ('s, 'c) env \<Rightarrow> ('s, 'c) ngram_match list list \<Rightarrow> py_error option \<times> ('s, 'c) env" where
  "outer_loop h w [] = (None, w)"
| "outer_loop h w (g # gs) =
     (case inner_loop h w g of
        (Some e, w') \<Rightarrow> (Some e, w')
      | (None, w') \<Rightarrow> outer_loop h w' gs)"

text \<open>
  The component keeps the engine and the two flags it passes to it.
\<close>

record ('s, 'c) component =
  quickumls_match :: "('s, 'c) doc \<Rightarrow> bool \<Rightarrow> bool \<Rightarrow> ('s, 'c) ngram_match list list"
  best_match :: bool
  ignore_syntax :: bool

text \<open>
  \<open>__call__(self, doc)\<close>: the matches of the engine, the two loops, and \<open>return doc\<close>.
  The result is the exception or the returned document, with the state left behind.
\<close>

definition call :: "(string \<Rightarrow> label) \<Rightarrow> ('s, 'c) component \<Rightarrow> ('s, 'c) env \<Rightarrow> (py_error + ('s, 'c) doc) \<times> ('s, 'c) env" where
  "call h self w =
     (let matches = quickumls_match self (document w) (best_match self) (ignore_syntax self)
      in case outer_loop h w matches of
           (Some e, w') \<Rightarrow> (Inl e, w')
         | (None, w') \<Rightarrow> (Inr (document w'), w'))"

subsection \<open>\<open>SpacyQuickUMLS.__init__\<close>\<close>

text \<open>
  \<open>Span.set_extension(name, default=...)\<close> without \<open>force\<close>: the names registered for
  spans are kept for the whole process, and a name that is registered already is an error.
\<close>

definition set_extension :: "string set \<Rightarrow> string \<Rightarrow> py_error + string set" where
  "set_extension registered name =
     (if name \<in> registered then Inl (ValueError_extension name)
      else Inr (insert name registered))"

text \<open>
  \<open>__init__\<close>: the engine is built first (it is given here as built, or as the exception
  its constructor raised), then the two extensions are registered. The result is the
  exception or the new component, with the names registered when \<open>__init__\<close> ends.
\<close>

definition init :: "(py_error + (('s, 'c) doc \<Rightarrow> bool \<Rightarrow> bool \<Rightarrow> ('s, 'c) ngram_match list list)) \<Rightarrow> bool \<Rightarrow> bool \<Rightarrow> string set \<Rightarrow> (py_error + ('s, 'c) component) \<times> string set" where
  "init engine bm isx registered =
     (case engine of
        Inl e \<Rightarrow> (Inl e, registered)
      | Inr q \<Rightarrow>
          (case set_extension registered ''similarity'' of
             Inl e \<Rightarrow> (Inl e, registered)
           | Inr r1 \<Rightarrow>
               (case set_extension r1 ''semtypes'' of
                  Inl e \<Rightarrow> (Inl e, r1)
                | Inr r2 \<Rightarrow>
                    (Inr \<lparr>quickumls_match = q, best_match = bm, ignore_syntax = isx\<rparr>, r2))))"

subsection \<open>Vocabulary of the properties\<close>

text \<open>The tokens a span covers.\<close>

definition span_tokens :: "span \<Rightarrow> nat set" where
  "span_tokens sp = {span_start sp..<span_end sp}"

text \<open>
  Two spans overlap partially when they share a token and their token ranges are not the
  same.
\<close>

definition partial_overlap :: "span \<Rightarrow> span \<Rightarrow> bool" where
  "partial_overlap a b =
     (span_tokens a \<inter> span_tokens b \<noteq> {} \<and>
      (span_start a, span_end a) \<noteq> (span_start b, span_end b))"

definition no_partial_overlap :: "span list \<Rightarrow> bool" where
  "no_partial_overlap es = (\<forall>a\<in>set es. \<forall>b\<in>set es. \<not> partial_overlap a b)"

text \<open>
  What \<open>doc.ents\<close> of a document is: the entities in the order of the tokens, each
  one once, with a label and at least one token, and no token in two of them.
\<close>

definition doc_ents_ok :: "span list \<Rightarrow> bool" where
  "doc_ents_ok es =
     (sorted (map span_start es) \<and> distinct es \<and>
      (\<forall>a\<in>set es. span_start a < span_end a \<and> span_label a \<noteq> 0) \<and>
      (\<forall>a\<in>set es. \<forall>b\<in>set es. a \<noteq> b \<longrightarrow> span_tokens a \<inter> span_tokens b = {}))"

text \<open>
  A match that stands for an entity: \<open>char_span\<close> gives it a span with a label and at
  least one token.
\<close>

definition entity_candidate :: "token list \<Rightarrow> (string \<Rightarrow> label) \<Rightarrow> ('s, 'c) ngram_match \<Rightarrow> bool" where
  "entity_candidate toks h m =
     (case char_span toks (m_start m) (m_end m) (h (m_cui m)) of
        Inr (Some sp) \<Rightarrow> span_start sp < span_end sp \<and> span_label sp \<noteq> 0
      | _ \<Rightarrow> False)"

text \<open>The document after lines 103 and 104: both attributes of the span written.\<close>

definition annotated :: "('s, 'c) doc \<Rightarrow> span \<Rightarrow> ('s, 'c) ngram_match \<Rightarrow> ('s, 'c) doc" where
  "annotated d sp m = set_semtypes (set_similarity d sp (m_similarity m)) sp (m_semtypes m)"

subsection \<open>A sample document\<close>

text \<open>
  The four tokens of "Patient has diabetes mellitus", a document with no entity yet, an
  empty string store, and an engine that answers with a fixed list of groups. The sample
  hash adds up the character codes of the string.
\<close>

definition example_hash :: "string \<Rightarrow> label" where
  "example_hash s = of_nat (sum_list (map of_char s))"

definition example_tokens :: "token list" where
  "example_tokens =
     [\<lparr>tok_idx = 0, tok_len = 7\<rparr>, \<lparr>tok_idx = 8, tok_len = 3\<rparr>,
      \<lparr>tok_idx = 12, tok_len = 8\<rparr>, \<lparr>tok_idx = 21, tok_len = 8\<rparr>]"

definition example_env :: "(real, string set) env" where
  "example_env =
     \<lparr>document = \<lparr>tokens = example_tokens, ents = [], ud_similarity = Map.empty,
                   ud_semtypes = Map.empty\<rparr>,
      strings = Map.empty, stdout = []\<rparr>"

definition example_match :: "int \<Rightarrow> int \<Rightarrow> string \<Rightarrow> real \<Rightarrow> string \<Rightarrow> (real, string set) ngram_match" where
  "example_match s e c v t =
     \<lparr>m_start = s, m_end = e, m_cui = c, m_similarity = v, m_semtypes = {t}\<rparr>"

definition example_component :: "(real, string set) ngram_match list list \<Rightarrow> bool \<Rightarrow> (real, string set) component" where
  "example_component gs bm =
     \<lparr>quickumls_match = (\<lambda>d b i. gs), best_match = bm, ignore_syntax = False\<rparr>"

section \<open>Properties\<close>

subsection \<open>Auxiliary facts\<close>

lemmas example_defs =
  call_def loop_body_def intern_def strings_add_def
  strings_getitem_def strings_contains_def char_span_def token_by_start_def token_by_end_def
  set_similarity_def set_semtypes_def get_similarity_def get_semtypes_def set_ents_def
  start_char_def end_char_def labelled_def c_int_def example_hash_def example_tokens_def
  example_env_def example_match_def example_component_def Let_def

lemma tokens_set_similarity [simp]: "tokens (set_similarity d sp v) = tokens d"
  by (simp add: set_similarity_def)

lemma ents_set_similarity [simp]: "ents (set_similarity d sp v) = ents d"
  by (simp add: set_similarity_def)

lemma tokens_set_semtypes [simp]: "tokens (set_semtypes d sp v) = tokens d"
  by (simp add: set_semtypes_def)

lemma ents_set_semtypes [simp]: "ents (set_semtypes d sp v) = ents d"
  by (simp add: set_semtypes_def)

lemma find_seen_None: "find (\<lambda>i. i \<in> seen) [a..<b] = None \<longleftrightarrow> {a..<b} \<inter> seen = {}"
  by (auto simp: find_None_iff)

text \<open>The check accepts one more span exactly when it shares no token with the others.\<close>

lemma check_spans_snoc:
  "check_spans seen (xs @ [sp]) = None \<longleftrightarrow>
     check_spans seen xs = None \<and>
     span_tokens sp \<inter> (seen \<union> (\<Union>s\<in>set xs. span_tokens s)) = {}"
proof (induction xs arbitrary: seen)
  case Nil
  show ?case using find_seen_None [of seen "span_start sp" "span_end sp"]
    by (auto simp: span_tokens_def split: option.splits)
next
  case (Cons x xs)
  show ?case
  proof (cases "find (\<lambda>i. i \<in> seen) [span_start x..<span_end x]")
    case None
    then show ?thesis using Cons.IH [of "seen \<union> {span_start x..<span_end x}"]
      by (simp add: span_tokens_def Un_assoc Int_Un_distrib)
  next
    case (Some i)
    then show ?thesis by simp
  qed
qed

text \<open>The two loops run through the matches of all groups in order.\<close>

lemma inner_loop_append:
  "inner_loop h w (xs @ ys) =
     (case inner_loop h w xs of (Some e, w') \<Rightarrow> (Some e, w') | (None, w') \<Rightarrow> inner_loop h w' ys)"
  by (induction xs arbitrary: w) (auto split: prod.splits option.splits)

lemma outer_loop_concat: "outer_loop h w gs = inner_loop h w (concat gs)"
  by (induction gs arbitrary: w) (auto simp: inner_loop_append split: prod.splits option.splits)

lemma snd_call:
  "snd (call h self w) =
     snd (inner_loop h w
       (concat (quickumls_match self (document w) (best_match self) (ignore_syntax self))))"
  by (auto simp: call_def Let_def outer_loop_concat split: prod.splits option.splits)

text \<open>The four ways through the body of the loop.\<close>

lemma loop_body_misaligned:
  assumes "char_span (tokens (document w)) (m_start m) (m_end m) (h (m_cui m)) = Inr None"
  shows "loop_body h w m =
           (Some AttributeError, w\<lparr>strings := strings_add h (strings w) (m_cui m)\<rparr>)"
  using assms by (simp add: loop_body_def intern_def strings_getitem_def Let_def)

lemma loop_body_raised:
  assumes "char_span (tokens (document w)) (m_start m) (m_end m) (h (m_cui m)) = Inl e"
  shows "loop_body h w m = (Some e, w\<lparr>strings := strings_add h (strings w) (m_cui m)\<rparr>)"
  using assms by (simp add: loop_body_def intern_def strings_getitem_def Let_def)

lemma loop_body_conflict:
  assumes "char_span (tokens (document w)) (m_start m) (m_end m) (h (m_cui m)) = Inr (Some sp)"
    and "check_spans {} (labelled (ents (document w) @ [sp])) = Some i"
  shows "loop_body h w m =
    (None, w\<lparr>strings := strings_add h (strings w) (m_cui m),
               document := annotated (document w) sp m,
               stdout := stdout w @
                 [\<lparr>p_token = i, p_start = span_start sp, p_end = span_end sp\<rparr>]\<rparr>)"
  using assms
  by (simp add: loop_body_def intern_def strings_getitem_def Let_def set_ents_def annotated_def)

lemma loop_body_commit:
  assumes "char_span (tokens (document w)) (m_start m) (m_end m) (h (m_cui m)) = Inr (Some sp)"
    and "check_spans {} (labelled (ents (document w) @ [sp])) = None"
  shows "loop_body h w m =
    (None, w\<lparr>strings := strings_add h (strings w) (m_cui m),
               document := (annotated (document w) sp m)
                 \<lparr>ents := sort_key span_start
                    (filter (\<lambda>sp. span_start sp < span_end sp)
               (labelled (ents (document w) @ [sp])))\<rparr>\<rparr>)"
  using assms
  by (simp add: loop_body_def intern_def strings_getitem_def Let_def set_ents_def annotated_def)

lemma loop_body_strings:
  "strings (snd (loop_body h w m)) = strings_add h (strings w) (m_cui m)"
  by (auto simp: loop_body_def intern_def strings_getitem_def Let_def set_ents_def
      split: sum.splits option.splits py_error.splits)

lemma loop_body_tokens:
  "tokens (document (snd (loop_body h w m))) = tokens (document w)"
  by (auto simp: loop_body_def intern_def strings_getitem_def Let_def set_ents_def
      split: sum.splits option.splits py_error.splits)

lemma strings_add_dom: "dom (strings_add h store s) = insert (h s) (dom store)"
  by (auto simp: strings_add_def split: option.splits)

lemma strings_contains_dom: "h s \<in> dom store \<Longrightarrow> strings_contains h store s"
  by (auto simp: strings_contains_def)

lemma inner_loop_strings_mono:
  "k \<in> dom (strings w) \<Longrightarrow> k \<in> dom (strings (snd (inner_loop h w ms)))"
proof (induction ms arbitrary: w)
  case Nil
  then show ?case by simp
next
  case (Cons m ms)
  have k: "k \<in> dom (strings (snd (loop_body h w m)))"
    using Cons.prems by (simp add: loop_body_strings strings_add_dom)
  show ?case
  proof (cases "loop_body h w m")
    case (Pair r w')
    with k have k': "k \<in> dom (strings w')" by simp
    show ?thesis
    proof (cases r)
      case None
      with Pair Cons.IH [OF k'] show ?thesis by simp
    next
      case (Some e)
      with Pair k' show ?thesis by simp
    qed
  qed
qed

lemma inner_loop_reached:
  assumes "fst (inner_loop h w pre) = None"
  shows "strings_contains h (strings (snd (inner_loop h w (pre @ m # post)))) (m_cui m)"
proof -
  obtain w1 where w1: "inner_loop h w pre = (None, w1)"
    using assms by (cases "inner_loop h w pre") auto
  have k: "h (m_cui m) \<in> dom (strings (snd (loop_body h w1 m)))"
    by (simp add: loop_body_strings strings_add_dom)
  obtain r w2 where b: "loop_body h w1 m = (r, w2)" by (cases "loop_body h w1 m") auto
  with k have k2: "h (m_cui m) \<in> dom (strings w2)" by simp
  have "h (m_cui m) \<in> dom (strings (snd (inner_loop h w1 (m # post))))"
    using b k2 inner_loop_strings_mono [OF k2, of h post] by (cases r) auto
  then show ?thesis by (simp add: inner_loop_append w1 strings_contains_dom)
qed

lemma ents_annotated [simp]: "ents (annotated d sp m) = ents d"
  by (simp add: annotated_def)

lemma tokens_annotated [simp]: "tokens (annotated d sp m) = tokens d"
  by (simp add: annotated_def)

text \<open>The body leaves the entities as they are, or adds the span of the match.\<close>

lemma loop_body_ents:
  "ents (document (snd (loop_body h w m))) = ents (document w) \<or>
   (\<exists>sp. char_span (tokens (document w)) (m_start m) (m_end m) (h (m_cui m)) = Inr (Some sp)
      \<and> check_spans {} (labelled (ents (document w) @ [sp])) = None
      \<and> ents (document (snd (loop_body h w m))) =
          sort_key span_start
            (filter (\<lambda>sp. span_start sp < span_end sp)
               (labelled (ents (document w) @ [sp]))))"
proof (cases "char_span (tokens (document w)) (m_start m) (m_end m) (h (m_cui m))")
  case (Inl e)
  then show ?thesis by (simp add: loop_body_raised)
next
  case (Inr r)
  show ?thesis
  proof (cases r)
    case None
    with Inr show ?thesis by (simp add: loop_body_misaligned)
  next
    case (Some sp)
    show ?thesis
    proof (cases "check_spans {} (labelled (ents (document w) @ [sp]))")
      case None
      with Inr Some show ?thesis by (simp add: loop_body_commit)
    next
      case (Some i)
      with Inr \<open>r = Some sp\<close> show ?thesis by (simp add: loop_body_conflict)
    qed
  qed
qed


lemma inner_loop_tokens:
  "tokens (document (snd (inner_loop h w ms))) = tokens (document w)"
proof (induction ms arbitrary: w)
  case Nil
  show ?case by simp
next
  case (Cons m ms)
  show ?case
    using Cons.IH [of "snd (loop_body h w m)"] loop_body_tokens [of h w m]
    by (cases "loop_body h w m") (auto split: option.splits)
qed

text \<open>An accepted span shares no token with the entities, so no partial overlap arises.\<close>

lemma labelled_snoc:
  "labelled (es @ [sp]) = labelled es @ (if span_label sp \<noteq> 0 then [sp] else [])"
  by (simp add: labelled_def)

lemma set_labelled: "set (labelled es) = {e \<in> set es. span_label e \<noteq> 0}"
  by (auto simp: labelled_def)

lemma no_partial_overlap_snoc:
  assumes "no_partial_overlap es"
    and "check_spans {} (labelled (es @ [sp])) = None"
  shows "no_partial_overlap
           (sort_key span_start
             (filter (\<lambda>sp. span_start sp < span_end sp) (labelled (es @ [sp]))))"
proof (cases "span_label sp = 0")
  case True
  then have "set (labelled (es @ [sp])) \<subseteq> set es" by (auto simp: set_labelled)
  with assms(1) show ?thesis by (auto simp: no_partial_overlap_def)
next
  case False
  with assms(2) have d: "\<forall>e\<in>set (labelled es). span_tokens sp \<inter> span_tokens e = {}"
    by (auto simp: labelled_snoc check_spans_snoc)
  have "\<not> partial_overlap a b"
    if "a \<in> set (labelled es) \<union> {sp}" and "b \<in> set (labelled es) \<union> {sp}" for a b
  proof (cases "a = sp")
    case True
    show ?thesis
    proof (cases "b = sp")
      case True
      with \<open>a = sp\<close> show ?thesis by (simp add: partial_overlap_def)
    next
      case False
      with that have "b \<in> set (labelled es)" by simp
      with d \<open>a = sp\<close> show ?thesis by (auto simp: partial_overlap_def)
    qed
  next
    case False
    with that have a: "a \<in> set (labelled es)" by simp
    show ?thesis
    proof (cases "b = sp")
      case True
      with d a show ?thesis by (auto simp: partial_overlap_def)
    next
      case False
      with that have "b \<in> set (labelled es)" by simp
      with a assms(1) show ?thesis by (simp add: no_partial_overlap_def set_labelled)
    qed
  qed
  with False show ?thesis by (auto simp: no_partial_overlap_def labelled_snoc)
qed

lemma loop_body_no_partial_overlap:
  assumes "no_partial_overlap (ents (document w))"
  shows "no_partial_overlap (ents (document (snd (loop_body h w m))))"
  using loop_body_ents [of h w m] assms no_partial_overlap_snoc by auto

lemma inner_loop_no_partial_overlap:
  "no_partial_overlap (ents (document w)) \<Longrightarrow>
   no_partial_overlap (ents (document (snd (inner_loop h w ms))))"
proof (induction ms arbitrary: w)
  case Nil
  then show ?case by simp
next
  case (Cons m ms)
  from Cons.prems have k: "no_partial_overlap (ents (document (snd (loop_body h w m))))"
    by (rule loop_body_no_partial_overlap)
  show ?case
  proof (cases "loop_body h w m")
    case (Pair r w')
    with k have k': "no_partial_overlap (ents (document w'))" by simp
    show ?thesis
    proof (cases r)
      case None
      with Pair Cons.IH [OF k'] show ?thesis by simp
    next
      case (Some e)
      with Pair k' show ?thesis by simp
    qed
  qed
qed



lemma char_span_label:
  "char_span toks s e lab = Inr (Some sp) \<Longrightarrow> span_label sp = lab"
  by (auto simp: char_span_def split: option.splits if_splits)

lemma char_span_Inl:
  "char_span toks s e lab = Inl x \<Longrightarrow> x = IndexError \<or> x = OverflowError"
  by (auto simp: char_span_def split: option.splits if_splits)

text \<open>A span that shares a token with an entity is printed and dropped.\<close>

lemma loop_body_shared_token:
  assumes cs: "char_span (tokens (document w)) (m_start m) (m_end m) (h (m_cui m)) = Inr (Some sp)"
    and e: "e \<in> set (ents (document w))"
    and sh: "span_tokens sp \<inter> span_tokens e \<noteq> {}"
    and nz: "h (m_cui m) \<noteq> 0" "span_label e \<noteq> 0"
  shows "fst (loop_body h w m) = None
       \<and> ents (document (snd (loop_body h w m))) = ents (document w)
       \<and> (\<exists>i. stdout (snd (loop_body h w m)) =
              stdout w @ [\<lparr>p_token = i, p_start = span_start sp, p_end = span_end sp\<rparr>])"
proof -
  from cs nz(1) have "span_label sp \<noteq> 0" by (simp add: char_span_label)
  with e sh nz(2) have "check_spans {} (labelled (ents (document w) @ [sp])) \<noteq> None"
    by (auto simp: labelled_snoc check_spans_snoc set_labelled)
  then obtain i where "check_spans {} (labelled (ents (document w) @ [sp])) = Some i" by auto
  with cs loop_body_conflict [of w m h sp i] show ?thesis by simp
qed



text \<open>The \<open>ValueError\<close> of \<open>doc.ents\<close> never leaves the loops.\<close>

lemma loop_body_no_ValueError: "fst (loop_body h w m) \<noteq> Some (ValueError_ents i)"
proof (cases "char_span (tokens (document w)) (m_start m) (m_end m) (h (m_cui m))")
  case (Inl e)
  with char_span_Inl [OF Inl] show ?thesis by (auto simp: loop_body_raised)
next
  case (Inr r)
  show ?thesis
  proof (cases r)
    case None
    with Inr show ?thesis by (simp add: loop_body_misaligned)
  next
    case (Some sp)
    show ?thesis
    proof (cases "check_spans {} (labelled (ents (document w) @ [sp]))")
      case None
      with Inr Some show ?thesis by (simp add: loop_body_commit)
    next
      case (Some j)
      with Inr \<open>r = Some sp\<close> show ?thesis by (simp add: loop_body_conflict)
    qed
  qed
qed

lemma inner_loop_no_ValueError: "fst (inner_loop h w ms) \<noteq> Some (ValueError_ents i)"
proof (induction ms arbitrary: w)
  case Nil
  show ?case by simp
next
  case (Cons m ms)
  obtain r w' where b: "loop_body h w m = (r, w')" by (cases "loop_body h w m") auto
  show ?case
  proof (cases r)
    case None
    with b Cons.IH [of w'] show ?thesis by simp
  next
    case (Some e)
    with b loop_body_no_ValueError [of h w m i] show ?thesis by simp
  qed
qed

text \<open>
  The entities of a document pass the check of \<open>doc.ents\<close>, and sorting or filtering
  them changes nothing.
\<close>

lemma check_spans_disjoint:
  assumes "distinct es"
    and "\<forall>a\<in>set es. \<forall>b\<in>set es. a \<noteq> b \<longrightarrow> span_tokens a \<inter> span_tokens b = {}"
  shows "check_spans {} es = None"
  using assms
proof (induction es rule: rev_induct)
  case Nil
  show ?case by simp
next
  case (snoc x xs)
  from snoc.prems have "check_spans {} xs = None" by (intro snoc.IH) auto
  moreover from snoc.prems have "span_tokens x \<inter> (\<Union>s\<in>set xs. span_tokens s) = {}" by auto
  ultimately show ?case by (simp add: check_spans_snoc)
qed

lemma doc_ents_ok_check: "doc_ents_ok es \<Longrightarrow> check_spans {} es = None"
  by (rule check_spans_disjoint) (auto simp: doc_ents_ok_def)

lemma doc_ents_ok_labelled: "doc_ents_ok es \<Longrightarrow> labelled es = es"
  by (simp add: doc_ents_ok_def labelled_def)

lemma doc_ents_ok_nonempty:
  "doc_ents_ok es \<Longrightarrow> filter (\<lambda>sp. span_start sp < span_end sp) es = es"
  by (simp add: doc_ents_ok_def)

lemma doc_ents_ok_sorted: "doc_ents_ok es \<Longrightarrow> sort_key span_start es = es"
  by (simp add: doc_ents_ok_def sort_key_id_if_sorted)

lemma doc_ents_ok_snoc:
  assumes ok: "doc_ents_ok es"
    and ne: "span_start sp < span_end sp" and nz: "span_label sp \<noteq> 0"
    and d: "span_tokens sp \<inter> (\<Union>s\<in>set es. span_tokens s) = {}"
  shows "doc_ents_ok (sort_key span_start (es @ [sp]))"
proof -
  from ne have "span_tokens sp \<noteq> {}" by (simp add: span_tokens_def)
  with d have notin: "sp \<notin> set es" by auto
  from d have dis: "\<forall>e\<in>set es. span_tokens sp \<inter> span_tokens e = {}" by auto
  have "sorted (map span_start (sort_key span_start (es @ [sp])))" by (rule sorted_sort_key)
  moreover from ok notin have "distinct (sort_key span_start (es @ [sp]))"
    by (simp add: doc_ents_ok_def)
  moreover from ok ne nz
  have "\<forall>a\<in>set (sort_key span_start (es @ [sp])). span_start a < span_end a \<and> span_label a \<noteq> 0"
    by (auto simp: doc_ents_ok_def)
  moreover from ok dis
  have "\<forall>a\<in>set (sort_key span_start (es @ [sp])). \<forall>b\<in>set (sort_key span_start (es @ [sp])).
      a \<noteq> b \<longrightarrow> span_tokens a \<inter> span_tokens b = {}"
    by (auto simp: doc_ents_ok_def)
  ultimately show ?thesis unfolding doc_ents_ok_def by blast
qed

text \<open>
  On a document whose entities are in order, a match that the body of the loop gets
  through adds one entity or prints one line when \<open>char_span\<close> gives it a span with a
  label and a token, and does neither otherwise.
\<close>

lemma loop_body_ok:
  assumes ok: "doc_ents_ok (ents (document w))" and r: "fst (loop_body h w m) = None"
  shows "doc_ents_ok (ents (document (snd (loop_body h w m))))
       \<and> (\<exists>qs. stdout (snd (loop_body h w m)) = stdout w @ qs \<and>
            length qs + length (ents (document (snd (loop_body h w m))))
              = length (ents (document w)) +
                (if entity_candidate (tokens (document w)) h m then 1 else 0))"
proof -
  let ?es = "ents (document w)"
  from r obtain sp where
    cs: "char_span (tokens (document w)) (m_start m) (m_end m) (h (m_cui m)) = Inr (Some sp)"
  proof (cases "char_span (tokens (document w)) (m_start m) (m_end m) (h (m_cui m))")
    case (Inl e)
    with r show ?thesis by (simp add: loop_body_raised)
  next
    case (Inr x)
    with r that show ?thesis by (cases x) (simp_all add: loop_body_misaligned)
  qed
  have cand: "entity_candidate (tokens (document w)) h m
      \<longleftrightarrow> span_start sp < span_end sp \<and> span_label sp \<noteq> 0"
    using cs by (simp add: entity_candidate_def)
  have chk: "check_spans {} ?es = None" using ok by (rule doc_ents_ok_check)
  show ?thesis
  proof (cases "span_label sp = 0")
    case True
    then have l: "labelled (?es @ [sp]) = ?es"
      using ok by (simp add: labelled_snoc doc_ents_ok_labelled)
    with chk have "check_spans {} (labelled (?es @ [sp])) = None" by simp
    from loop_body_commit [of w m h sp] cs this l ok True cand show ?thesis
      by (simp add: doc_ents_ok_nonempty doc_ents_ok_sorted)
  next
    case False
    then have l: "labelled (?es @ [sp]) = ?es @ [sp]"
      using ok by (simp add: labelled_snoc doc_ents_ok_labelled)
    show ?thesis
    proof (cases "check_spans {} (labelled (?es @ [sp]))")
      case (Some i)
      with l have "check_spans {} (?es @ [sp]) \<noteq> None" by simp
      with chk have "span_tokens sp \<noteq> {}" by (auto simp: check_spans_snoc)
      then have "span_start sp < span_end sp" by (simp add: span_tokens_def)
      with loop_body_conflict [of w m h sp i] cs Some ok False cand show ?thesis by simp
    next
      case None
      with l have d: "span_tokens sp \<inter> (\<Union>s\<in>set ?es. span_tokens s) = {}"
        by (simp add: check_spans_snoc)
      show ?thesis
      proof (cases "span_start sp < span_end sp")
        case True
        from doc_ents_ok_snoc [OF ok True False d]
        have "doc_ents_ok (sort_key span_start (?es @ [sp]))" .
        with loop_body_commit [of w m h sp] cs None l ok True False cand show ?thesis
          by (simp add: doc_ents_ok_nonempty)
      next
        case False
        with loop_body_commit [of w m h sp] cs None l ok cand show ?thesis
          by (simp add: doc_ents_ok_nonempty doc_ents_ok_sorted)
      qed
    qed
  qed
qed

lemma inner_loop_ok:
  "doc_ents_ok (ents (document w)) \<Longrightarrow> fst (inner_loop h w ms) = None \<Longrightarrow>
   doc_ents_ok (ents (document (snd (inner_loop h w ms))))
   \<and> (\<exists>ps. stdout (snd (inner_loop h w ms)) = stdout w @ ps \<and>
        length ps + length (ents (document (snd (inner_loop h w ms))))
          = length (ents (document w)) +
            length (filter (entity_candidate (tokens (document w)) h) ms))"
proof (induction ms arbitrary: w)
  case Nil
  then show ?case by simp
next
  case (Cons m ms)
  obtain r w' where b: "loop_body h w m = (r, w')" by (cases "loop_body h w m") auto
  with Cons.prems(2) have r: "r = None" by (cases r) auto
  with b Cons.prems(2) have rest: "fst (inner_loop h w' ms) = None" by simp
  from b r have "fst (loop_body h w m) = None" by simp
  from loop_body_ok [OF Cons.prems(1) this] b obtain qs where
    ok': "doc_ents_ok (ents (document w'))" and
    qs: "stdout w' = stdout w @ qs"
      "length qs + length (ents (document w'))
         = length (ents (document w)) +
           (if entity_candidate (tokens (document w)) h m then 1 else 0)"
    by auto
  have t: "tokens (document w') = tokens (document w)"
    using loop_body_tokens [of h w m] b by simp
  from Cons.IH [OF ok' rest] obtain ps where
    ok'': "doc_ents_ok (ents (document (snd (inner_loop h w' ms))))" and
    ps: "stdout (snd (inner_loop h w' ms)) = stdout w' @ ps"
      "length ps + length (ents (document (snd (inner_loop h w' ms))))
         = length (ents (document w')) +
           length (filter (entity_candidate (tokens (document w')) h) ms)"
    by auto
  have 1: "stdout (snd (inner_loop h w (m # ms))) = stdout w @ (qs @ ps)"
    using b r ps(1) qs(1) by simp
  have 2: "length (qs @ ps) + length (ents (document (snd (inner_loop h w (m # ms)))))
      = length (ents (document w)) +
        length (filter (entity_candidate (tokens (document w)) h) (m # ms))"
    using b r ps(2) qs(2) t by (cases "entity_candidate (tokens (document w)) h m") simp_all
  have 3: "doc_ents_ok (ents (document (snd (inner_loop h w (m # ms)))))"
    using b r ok'' by simp
  from 1 2 3 show ?case by blast
qed

lemma fst_call:
  "fst (call h self w) =
     (case fst (inner_loop h w
        (concat (quickumls_match self (document w) (best_match self) (ignore_syntax self)))) of
        Some e \<Rightarrow> Inl e
      | None \<Rightarrow> Inr (document (snd (call h self w))))"
  by (auto simp: call_def Let_def outer_loop_concat split: prod.splits option.splits)

text \<open>The loops never write over an entry of the string store.\<close>

lemma strings_add_keeps: "store k = Some s \<Longrightarrow> strings_add h store c k = Some s"
  by (auto simp: strings_add_def split: option.splits)

lemma inner_loop_strings_keep:
  "strings w k = Some s \<Longrightarrow> strings (snd (inner_loop h w ms)) k = Some s"
proof (induction ms arbitrary: w)
  case Nil
  then show ?case by simp
next
  case (Cons m ms)
  have k: "strings (snd (loop_body h w m)) k = Some s"
    using Cons.prems by (simp add: loop_body_strings strings_add_keeps)
  show ?case
  proof (cases "loop_body h w m")
    case (Pair r w')
    with k have k': "strings w' k = Some s" by simp
    show ?thesis
    proof (cases r)
      case None
      with Pair Cons.IH [OF k'] show ?thesis by simp
    next
      case (Some e)
      with Pair k' show ?thesis by simp
    qed
  qed
qed

subsection \<open>The hash of a concept code\<close>

text \<open>The model of the hash gives the key that spaCy's documentation shows for "coffee".\<close>

lemma hash_string_coffee: "hash_string ''coffee'' = 3197928453018144401"
  by (simp add: hash_string_def MurmurHash64A_def murmur_m_def shift_mix_def mix_block_def)















subsection \<open>The string store as the registry of concept codes\<close>

text \<open>Where the entries of the string store come from.\<close>

lemma inner_loop_strings_provenance:
  "strings (snd (inner_loop h w ms)) k = Some c \<Longrightarrow>
   strings w k = Some c \<or> (\<exists>m\<in>set ms. m_cui m = c \<and> h c = k)"
proof (induction ms arbitrary: w)
  case Nil
  then show ?case by simp
next
  case (Cons m ms)
  obtain r w' where b: "loop_body h w m = (r, w')" by (cases "loop_body h w m") auto
  have s': "strings w' = strings_add h (strings w) (m_cui m)"
    using loop_body_strings [of h w m] b by simp
  have step: "strings w' k = Some c \<Longrightarrow> strings w k = Some c \<or> (m_cui m = c \<and> h c = k)"
    unfolding s' by (auto simp: strings_add_def split: option.splits if_splits)
  show ?case
  proof (cases r)
    case None
    with b Cons.prems have "strings (snd (inner_loop h w' ms)) k = Some c" by simp
    from Cons.IH [OF this] step show ?thesis by auto
  next
    case (Some e)
    with b Cons.prems step show ?thesis by auto
  qed
qed



text \<open>
  C10. The code of a match is in the string store as soon as the body of the loop has run
  for it, whether its span was committed, dropped or never built; so after the call the
  store contains the code of every match the loops reached. When no other code with the
  same hash was in the store or came earlier in the batch, the entry under the hash of
  the code is the code itself.
\<close>

theorem registry_holds_every_reached_code:
  assumes "concat (quickumls_match self (document w) (best_match self) (ignore_syntax self))
             = pre @ m # post"
    and "fst (inner_loop h w pre) = None"
  shows "strings_contains h (strings (snd (loop_body h (snd (inner_loop h w pre)) m))) (m_cui m)
       \<and> strings_contains h (strings (snd (call h self w))) (m_cui m)
       \<and> ((\<forall>c. strings w (h (m_cui m)) = Some c \<longrightarrow> c = m_cui m) \<and>
          (\<forall>m'\<in>set pre. h (m_cui m') = h (m_cui m) \<longrightarrow> m_cui m' = m_cui m) \<longrightarrow>
            strings (snd (loop_body h (snd (inner_loop h w pre)) m)) (h (m_cui m)) = Some (m_cui m)
            \<and> strings (snd (call h self w)) (h (m_cui m)) = Some (m_cui m))"
proof -
  let ?k = "h (m_cui m)"
  obtain w1 where w1: "inner_loop h w pre = (None, w1)"
    using assms(2) by (cases "inner_loop h w pre") auto
  obtain r w2 where b: "loop_body h w1 m = (r, w2)" by (cases "loop_body h w1 m") auto
  have s2: "strings w2 = strings_add h (strings w1) (m_cui m)"
    using loop_body_strings [of h w1 m] b by simp
  have fin: "snd (call h self w) = snd (inner_loop h w1 (m # post))"
    using assms(1) w1 by (simp add: snd_call inner_loop_append)
  have keep: "strings w2 k = Some c \<Longrightarrow> strings (snd (inner_loop h w1 (m # post))) k = Some c"
    for k c
    using b inner_loop_strings_keep [of w2 k c h post] by (cases r) auto
  have dom2: "?k \<in> dom (strings w2)" unfolding s2 by (simp add: strings_add_dom)
  then obtain c where c: "strings w2 ?k = Some c" by auto
  from keep [OF c] have "?k \<in> dom (strings (snd (inner_loop h w1 (m # post))))" by auto
  with dom2 have 1: "strings_contains h (strings (snd (loop_body h (snd (inner_loop h w pre)) m))) (m_cui m)"
    and 2: "strings_contains h (strings (snd (call h self w))) (m_cui m)"
    using w1 b fin by (simp_all add: strings_contains_dom)
  have 3: "strings (snd (loop_body h (snd (inner_loop h w pre)) m)) ?k = Some (m_cui m)
      \<and> strings (snd (call h self w)) ?k = Some (m_cui m)"
    if i: "\<forall>c. strings w ?k = Some c \<longrightarrow> c = m_cui m"
      and ii: "\<forall>m'\<in>set pre. h (m_cui m') = h (m_cui m) \<longrightarrow> m_cui m' = m_cui m"
  proof -
    have old: "strings w1 ?k = Some c' \<Longrightarrow> c' = m_cui m" for c'
      using inner_loop_strings_provenance [of h w pre ?k c'] w1 i ii by auto
    have "strings w2 ?k = Some (m_cui m)"
      unfolding s2 using old by (auto simp: strings_add_def split: option.splits)
    with keep [of ?k "m_cui m"] w1 b fin show ?thesis by simp
  qed
  from 1 2 3 show ?thesis by blast
qed

theorem registry_holds_every_reached_code_witness:
  "concat (quickumls_match
       (example_component [[example_match 12 29 ''C0011849'' 0.5 ''T033''],
                           [example_match 14 29 ''C0011860'' 0.95 ''T047''],
                           [example_match 0 7 ''C0011849'' 0.5 ''T033'']] True)
       (document example_env) True False)
     = [example_match 12 29 ''C0011849'' 0.5 ''T033'']
       @ example_match 14 29 ''C0011860'' 0.95 ''T047'' # [example_match 0 7 ''C0011849'' 0.5 ''T033'']
   \<and> fst (inner_loop example_hash example_env [example_match 12 29 ''C0011849'' 0.5 ''T033'']) = None
   \<and> fst (call example_hash
       (example_component [[example_match 12 29 ''C0011849'' 0.5 ''T033''],
                           [example_match 14 29 ''C0011860'' 0.95 ''T047''],
                           [example_match 0 7 ''C0011849'' 0.5 ''T033'']] True) example_env)
       = Inl AttributeError
   \<and> strings_contains example_hash
       (strings (snd (call example_hash
          (example_component [[example_match 12 29 ''C0011849'' 0.5 ''T033''],
                              [example_match 14 29 ''C0011860'' 0.95 ''T047''],
                              [example_match 0 7 ''C0011849'' 0.5 ''T033'']] True) example_env)))
       ''C0011860''
   \<and> strings (snd (call example_hash
          (example_component [[example_match 12 29 ''C0011849'' 0.5 ''T033''],
                              [example_match 14 29 ''C0011860'' 0.95 ''T047''],
                              [example_match 0 7 ''C0011849'' 0.5 ''T033'']] True) example_env))
       (example_hash ''C0011860'') = Some ''C0011860''"
proof -
  let ?p = "example_match 12 29 ''C0011849'' 0.5 ''T033''"
  let ?m = "example_match 14 29 ''C0011860'' 0.95 ''T047''"
  let ?n = "example_match 0 7 ''C0011849'' 0.5 ''T033''"
  let ?self = "example_component [[?p], [?m], [?n]] True"
  have a: "concat (quickumls_match ?self (document example_env) (best_match ?self)
             (ignore_syntax ?self)) = [?p] @ ?m # [?n]"
    by (simp add: example_component_def)
  have b: "fst (inner_loop example_hash example_env [?p]) = None"
    by (simp add: example_defs)
  have c: "fst (call example_hash ?self example_env) = Inl AttributeError"
    by (simp add: example_defs)
  have d: "m_cui ?m = ''C0011860''" by (simp add: example_match_def)
  have e: "\<forall>c. strings example_env (example_hash (m_cui ?m)) = Some c \<longrightarrow> c = m_cui ?m"
    by (simp add: example_env_def)
  have f: "\<forall>m'\<in>set [?p]. example_hash (m_cui m') = example_hash (m_cui ?m) \<longrightarrow> m_cui m' = m_cui ?m"
    by (simp add: example_match_def example_hash_def)
  from registry_holds_every_reached_code [OF a b] e f
  have "strings_contains example_hash (strings (snd (call example_hash ?self example_env))) (m_cui ?m)"
    and "strings (snd (call example_hash ?self example_env)) (example_hash (m_cui ?m)) = Some (m_cui ?m)"
    by blast+
  with a b c d show ?thesis by (simp add: example_component_def)
qed

subsection \<open>Constructing the component\<close>

text \<open>
  C9. In a process where neither extension is registered, \<open>__init__\<close> succeeds and
  registers both; from then on every \<open>__init__\<close> ends in an exception and registers
  nothing: with an engine that was built, the exception is the \<open>ValueError\<close> of
  registering \<open>similarity\<close> again.
\<close>

theorem init_not_repeatable:
  assumes "''similarity'' \<notin> reg" and "''semtypes'' \<notin> reg"
  shows "init (Inr q) bm isx reg =
           (Inr \<lparr>quickumls_match = q, best_match = bm, ignore_syntax = isx\<rparr>,
            insert ''semtypes'' (insert ''similarity'' reg))
       \<and> (\<forall>reg' q' bm' isx'. insert ''semtypes'' (insert ''similarity'' reg) \<subseteq> reg' \<longrightarrow>
            init (Inr q') bm' isx' reg' = (Inl (ValueError_extension ''similarity''), reg'))
       \<and> (\<forall>reg' engine' bm' isx'. insert ''semtypes'' (insert ''similarity'' reg) \<subseteq> reg' \<longrightarrow>
            (\<exists>e. init engine' bm' isx' reg' = (Inl e, reg')))"
  using assms by (auto simp: init_def set_extension_def split: sum.splits)

theorem init_not_repeatable_witness:
  "''similarity'' \<notin> ({} :: string set) \<and> ''semtypes'' \<notin> ({} :: string set)
   \<and> fst (init (Inr (\<lambda>d b i. [] :: (real, string set) ngram_match list list)) True False {})
       = Inr (example_component [] True)
   \<and> snd (init (Inr (\<lambda>d b i. [] :: (real, string set) ngram_match list list)) True False {})
       = {''semtypes'', ''similarity''}
   \<and> init (Inr (\<lambda>d b i. [] :: (real, string set) ngram_match list list)) True False
        {''semtypes'', ''similarity''}
       = (Inl (ValueError_extension ''similarity''), {''semtypes'', ''similarity''})"
proof -
  have a: "''similarity'' \<notin> ({} :: string set)" and b: "''semtypes'' \<notin> ({} :: string set)"
    by simp_all
  let ?q = "\<lambda>d b i. [] :: (real, string set) ngram_match list list"
  note t = init_not_repeatable [OF a b, of ?q True False]
  from t have 1: "init (Inr ?q) True False {} =
      (Inr \<lparr>quickumls_match = ?q, best_match = True, ignore_syntax = False\<rparr>,
       {''semtypes'', ''similarity''})"
    by blast
  from t have "\<forall>reg' q' bm' isx'. {''semtypes'', ''similarity''} \<subseteq> reg' \<longrightarrow>
      init (Inr (q' :: (real, string set) doc \<Rightarrow> bool \<Rightarrow> bool \<Rightarrow> (real, string set) ngram_match list list))
        bm' isx' reg' = (Inl (ValueError_extension ''similarity''), reg')"
    by blast
  then have 2: "init (Inr ?q) True False {''semtypes'', ''similarity''}
       = (Inl (ValueError_extension ''similarity''), {''semtypes'', ''similarity''})"
    by blast
  from 1 2 a b show ?thesis by (simp add: example_component_def)
qed

subsection \<open>Spans from character offsets\<close>







subsection \<open>Conflicts between spans\<close>

text \<open>
  C2, as the code has it. When the span of a match overlaps partially an entity of the
  document (the match and the entity both with a label other than 0, as every concept
  code and every entity has), the body of the loop ends without an exception, the
  entities of the document are what they were, and one line is printed on the standard
  output; nothing is handed to the caller.
\<close>

theorem partial_overlap_is_printed_and_dropped:
  assumes "char_span (tokens (document w)) (m_start m) (m_end m) (h (m_cui m)) = Inr (Some sp)"
    and "e \<in> set (ents (document w))"
    and "partial_overlap sp e"
    and "h (m_cui m) \<noteq> 0" and "span_label e \<noteq> 0"
  shows "fst (loop_body h w m) = None
       \<and> ents (document (snd (loop_body h w m))) = ents (document w)
       \<and> (\<exists>i. stdout (snd (loop_body h w m)) =
              stdout w @ [\<lparr>p_token = i, p_start = span_start sp, p_end = span_end sp\<rparr>])"
  using loop_body_shared_token [of w m h sp e] assms
  by (simp add: partial_overlap_def)

theorem partial_overlap_is_printed_and_dropped_witness:
  "char_span (tokens (document (snd (call example_hash
        (example_component [[example_match 12 29 ''C0011860'' 0.95 ''T047'']] True) example_env))))
      (m_start (example_match 12 20 ''C0011849'' 0.5 ''T033''))
      (m_end (example_match 12 20 ''C0011849'' 0.5 ''T033''))
      (example_hash (m_cui (example_match 12 20 ''C0011849'' 0.5 ''T033'')))
     = Inr (Some \<lparr>span_start = 2, span_end = 3, span_label = example_hash ''C0011849''\<rparr>)
   \<and> \<lparr>span_start = 2, span_end = 4, span_label = example_hash ''C0011860''\<rparr>
       \<in> set (ents (document (snd (call example_hash
        (example_component [[example_match 12 29 ''C0011860'' 0.95 ''T047'']] True) example_env))))
   \<and> partial_overlap \<lparr>span_start = 2, span_end = 3, span_label = example_hash ''C0011849''\<rparr>
        \<lparr>span_start = 2, span_end = 4, span_label = example_hash ''C0011860''\<rparr>
   \<and> example_hash (m_cui (example_match 12 20 ''C0011849'' 0.5 ''T033'')) \<noteq> 0
   \<and> example_hash ''C0011860'' \<noteq> 0
   \<and> fst (loop_body example_hash (snd (call example_hash
        (example_component [[example_match 12 29 ''C0011860'' 0.95 ''T047'']] True) example_env))
        (example_match 12 20 ''C0011849'' 0.5 ''T033'')) = None
   \<and> ents (document (snd (loop_body example_hash (snd (call example_hash
        (example_component [[example_match 12 29 ''C0011860'' 0.95 ''T047'']] True) example_env))
        (example_match 12 20 ''C0011849'' 0.5 ''T033''))))
      = ents (document (snd (call example_hash
        (example_component [[example_match 12 29 ''C0011860'' 0.95 ''T047'']] True) example_env)))"
proof -
  let ?w = "snd (call example_hash
        (example_component [[example_match 12 29 ''C0011860'' 0.95 ''T047'']] True) example_env)"
  let ?m = "example_match 12 20 ''C0011849'' 0.5 ''T033''"
  let ?sp = "\<lparr>span_start = 2, span_end = 3, span_label = example_hash ''C0011849''\<rparr>"
  let ?e = "\<lparr>span_start = 2, span_end = 4, span_label = example_hash ''C0011860''\<rparr>"
  have a: "char_span (tokens (document ?w)) (m_start ?m) (m_end ?m) (example_hash (m_cui ?m))
      = Inr (Some ?sp)"
    by (simp add: example_defs)
  have b: "?e \<in> set (ents (document ?w))" by (simp add: example_defs)
  have c: "partial_overlap ?sp ?e" by (simp add: partial_overlap_def span_tokens_def)
  have n: "example_hash (m_cui ?m) \<noteq> 0" "example_hash ''C0011860'' \<noteq> 0"
    "span_label ?e \<noteq> 0"
    by (simp_all add: example_defs)
  from partial_overlap_is_printed_and_dropped [of ?w ?m example_hash ?sp ?e] a b c n
  show ?thesis by blast
qed

text \<open>
  The claim as the specification states it has the conflict reported to the caller. Here
  the second match ("diabetes") overlaps the entity of the first ("diabetes mellitus"):
  the call returns the document, and the conflict is a line of the standard output.
\<close>

theorem conflict_only_printed_counterexample:
  "fst (call example_hash
     (example_component [[example_match 12 29 ''C0011860'' 0.95 ''T047''],
                         [example_match 12 20 ''C0011849'' 0.5 ''T033'']] True) example_env)
     = Inr (document (snd (call example_hash
     (example_component [[example_match 12 29 ''C0011860'' 0.95 ''T047''],
                         [example_match 12 20 ''C0011849'' 0.5 ''T033'']] True) example_env)))
   \<and> ents (document (snd (call example_hash
     (example_component [[example_match 12 29 ''C0011860'' 0.95 ''T047''],
                         [example_match 12 20 ''C0011849'' 0.5 ''T033'']] True) example_env)))
     = [\<lparr>span_start = 2, span_end = 4, span_label = example_hash ''C0011860''\<rparr>]
   \<and> stdout (snd (call example_hash
     (example_component [[example_match 12 29 ''C0011860'' 0.95 ''T047''],
                         [example_match 12 20 ''C0011849'' 0.5 ''T033'']] True) example_env))
     = [\<lparr>p_token = 2, p_start = 2, p_end = 3\<rparr>]"
  by (simp add: example_defs)

text \<open>
  C5, as the code has it. When the span of a match has the token range of an entity of
  the document (both with a label other than 0), the match is dropped like any other
  conflict: the entity stays, the entities are what they were, and one line is printed.
  The body of the loop does not read \<open>best_match\<close>, so this is so under either
  policy.
\<close>

theorem duplicate_range_is_printed_and_dropped:
  assumes "char_span (tokens (document w)) (m_start m) (m_end m) (h (m_cui m)) = Inr (Some sp)"
    and "e \<in> set (ents (document w))"
    and "span_start e = span_start sp" and "span_end e = span_end sp"
    and "span_start sp < span_end sp"
    and "h (m_cui m) \<noteq> 0" and "span_label e \<noteq> 0"
  shows "fst (loop_body h w m) = None
       \<and> ents (document (snd (loop_body h w m))) = ents (document w)
       \<and> (\<exists>i. stdout (snd (loop_body h w m)) =
              stdout w @ [\<lparr>p_token = i, p_start = span_start sp, p_end = span_end sp\<rparr>])"
proof -
  from assms(3-5) have "span_tokens sp \<inter> span_tokens e \<noteq> {}"
    by (simp add: span_tokens_def)
  with loop_body_shared_token [of w m h sp e] assms(1,2,6,7) show ?thesis by simp
qed

theorem duplicate_range_is_printed_and_dropped_witness:
  "char_span (tokens (document (snd (call example_hash
        (example_component [[example_match 12 29 ''C0011860'' 0.95 ''T047'']] False) example_env))))
      (m_start (example_match 12 29 ''C0011849'' 0.5 ''T033''))
      (m_end (example_match 12 29 ''C0011849'' 0.5 ''T033''))
      (example_hash (m_cui (example_match 12 29 ''C0011849'' 0.5 ''T033'')))
     = Inr (Some \<lparr>span_start = 2, span_end = 4, span_label = example_hash ''C0011849''\<rparr>)
   \<and> \<lparr>span_start = 2, span_end = 4, span_label = example_hash ''C0011860''\<rparr>
       \<in> set (ents (document (snd (call example_hash
        (example_component [[example_match 12 29 ''C0011860'' 0.95 ''T047'']] False) example_env))))
   \<and> (2::nat) < 4
   \<and> example_hash (m_cui (example_match 12 29 ''C0011849'' 0.5 ''T033'')) \<noteq> 0
   \<and> example_hash ''C0011860'' \<noteq> 0
   \<and> fst (loop_body example_hash (snd (call example_hash
        (example_component [[example_match 12 29 ''C0011860'' 0.95 ''T047'']] False) example_env))
        (example_match 12 29 ''C0011849'' 0.5 ''T033'')) = None
   \<and> ents (document (snd (loop_body example_hash (snd (call example_hash
        (example_component [[example_match 12 29 ''C0011860'' 0.95 ''T047'']] False) example_env))
        (example_match 12 29 ''C0011849'' 0.5 ''T033''))))
      = ents (document (snd (call example_hash
        (example_component [[example_match 12 29 ''C0011860'' 0.95 ''T047'']] False) example_env)))"
proof -
  let ?w = "snd (call example_hash
        (example_component [[example_match 12 29 ''C0011860'' 0.95 ''T047'']] False) example_env)"
  let ?m = "example_match 12 29 ''C0011849'' 0.5 ''T033''"
  let ?sp = "\<lparr>span_start = 2, span_end = 4, span_label = example_hash ''C0011849''\<rparr>"
  let ?e = "\<lparr>span_start = 2, span_end = 4, span_label = example_hash ''C0011860''\<rparr>"
  have a: "char_span (tokens (document ?w)) (m_start ?m) (m_end ?m) (example_hash (m_cui ?m))
      = Inr (Some ?sp)"
    by (simp add: example_defs)
  have b: "?e \<in> set (ents (document ?w))" by (simp add: example_defs)
  have c: "span_start ?e = span_start ?sp" "span_end ?e = span_end ?sp"
    "span_start ?sp < span_end ?sp" by simp_all
  have d: "(2::nat) < 4" by simp
  have n: "example_hash (m_cui ?m) \<noteq> 0" "example_hash ''C0011860'' \<noteq> 0"
    "span_label ?e \<noteq> 0"
    by (simp_all add: example_defs)
  from duplicate_range_is_printed_and_dropped [of ?w ?m example_hash ?sp ?e] a b c d n
  show ?thesis by blast
qed

text \<open>
  The claim as the specification states it has the duplicate inserted as a second entity
  when \<open>best_match\<close> is false. Here two matches of one group have the same offsets and
  \<open>best_match\<close> is false: one entity, with the label of the first match, and one printed
  line.
\<close>

theorem duplicate_not_inserted_counterexample:
  "best_match (example_component [[example_match 12 29 ''C0011860'' 0.95 ''T047'',
                          example_match 12 29 ''C0011849'' 0.5 ''T033'']] False) = False
   \<and> ents (document (snd (call example_hash
     (example_component [[example_match 12 29 ''C0011860'' 0.95 ''T047'',
                          example_match 12 29 ''C0011849'' 0.5 ''T033'']] False) example_env)))
     = [\<lparr>span_start = 2, span_end = 4, span_label = example_hash ''C0011860''\<rparr>]
   \<and> stdout (snd (call example_hash
     (example_component [[example_match 12 29 ''C0011860'' 0.95 ''T047'',
                          example_match 12 29 ''C0011849'' 0.5 ''T033'']] False) example_env))
     = [\<lparr>p_token = 2, p_start = 2, p_end = 4\<rparr>]"
  by (simp add: example_defs)

text \<open>
  C4. If no two entities of the document overlap partially before the call, none do after
  it, whatever the engine, \<open>best_match\<close> and \<open>ignore_syntax\<close> are, and whether the
  call returns or raises.
\<close>

theorem call_no_partial_overlap:
  assumes "no_partial_overlap (ents (document w))"
  shows "no_partial_overlap (ents (document (snd (call h self w))))"
  using assms by (simp add: snd_call inner_loop_no_partial_overlap)

theorem call_no_partial_overlap_witness:
  "no_partial_overlap (ents (document example_env))
   \<and> ents (document (snd (call example_hash
        (example_component [[example_match 12 29 ''C0011860'' 0.95 ''T047''],
                            [example_match 12 20 ''C0011849'' 0.5 ''T033''],
                            [example_match 0 7 ''C0011849'' 0.5 ''T033'']] False) example_env)))
       = [\<lparr>span_start = 0, span_end = 1, span_label = example_hash ''C0011849''\<rparr>,
          \<lparr>span_start = 2, span_end = 4, span_label = example_hash ''C0011860''\<rparr>]
   \<and> no_partial_overlap (ents (document (snd (call example_hash
        (example_component [[example_match 12 29 ''C0011860'' 0.95 ''T047''],
                            [example_match 12 20 ''C0011849'' 0.5 ''T033''],
                            [example_match 0 7 ''C0011849'' 0.5 ''T033'']] False) example_env))))"
proof -
  have a: "no_partial_overlap (ents (document example_env))"
    by (simp add: example_env_def no_partial_overlap_def)
  have b: "ents (document (snd (call example_hash
        (example_component [[example_match 12 29 ''C0011860'' 0.95 ''T047''],
                            [example_match 12 20 ''C0011849'' 0.5 ''T033''],
                            [example_match 0 7 ''C0011849'' 0.5 ''T033'']] False) example_env)))
       = [\<lparr>span_start = 0, span_end = 1, span_label = example_hash ''C0011849''\<rparr>,
          \<lparr>span_start = 2, span_end = 4, span_label = example_hash ''C0011860''\<rparr>]"
    by (simp add: example_defs)
  from a b call_no_partial_overlap [of example_env example_hash
        "example_component [[example_match 12 29 ''C0011860'' 0.95 ''T047''],
                            [example_match 12 20 ''C0011849'' 0.5 ''T033''],
                            [example_match 0 7 ''C0011849'' 0.5 ''T033'']] False"]
  show ?thesis by blast
qed

subsection \<open>What the call returns\<close>

text \<open>
  C3, as the code has it. The call returns the document it was given, mutated, and nothing
  else; the \<open>ValueError\<close> of an overlap never leaves the call; the tokens are untouched;
  and what is reported is printed, one line for each candidate that is dropped: when the
  call returns, on a document whose entities are in order, the printed lines and the new
  entities together are exactly as many as the matches that stand for an entity.
\<close>

theorem call_returns_document_only:
  "(\<forall>d. fst (call h self w) = Inr d \<longrightarrow> d = document (snd (call h self w)))
   \<and> (\<forall>i. fst (call h self w) \<noteq> Inl (ValueError_ents i))
   \<and> tokens (document (snd (call h self w))) = tokens (document w)
   \<and> (doc_ents_ok (ents (document w)) \<and> (\<exists>d. fst (call h self w) = Inr d) \<longrightarrow>
        (\<exists>ps. stdout (snd (call h self w)) = stdout w @ ps \<and>
           length ps + length (ents (document (snd (call h self w))))
             = length (ents (document w)) +
               length (filter (entity_candidate (tokens (document w)) h)
                 (concat (quickumls_match self (document w) (best_match self)
                    (ignore_syntax self))))))"
proof -
  let ?ms = "concat (quickumls_match self (document w) (best_match self) (ignore_syntax self))"
  have 1: "\<forall>d. fst (call h self w) = Inr d \<longrightarrow> d = document (snd (call h self w))"
    by (auto simp: fst_call split: option.splits)
  have 2: "\<forall>i. fst (call h self w) \<noteq> Inl (ValueError_ents i)"
    using inner_loop_no_ValueError [of h w ?ms] by (auto simp: fst_call split: option.splits)
  have 3: "tokens (document (snd (call h self w))) = tokens (document w)"
    by (simp add: snd_call inner_loop_tokens)
  have 4: "\<exists>ps. stdout (snd (call h self w)) = stdout w @ ps \<and>
        length ps + length (ents (document (snd (call h self w))))
          = length (ents (document w)) +
            length (filter (entity_candidate (tokens (document w)) h) ?ms)"
    if ok: "doc_ents_ok (ents (document w))" and ret: "\<exists>d. fst (call h self w) = Inr d"
  proof -
    from ret have "fst (inner_loop h w ?ms) = None"
      by (auto simp: fst_call split: option.splits)
    from inner_loop_ok [OF ok this] show ?thesis unfolding snd_call by blast
  qed
  from 1 2 3 4 show ?thesis by blast
qed

theorem call_returns_document_only_witness:
  "doc_ents_ok (ents (document example_env))
   \<and> fst (call example_hash
      (example_component [[example_match 12 29 ''C0011860'' 0.95 ''T047''],
                          [example_match 12 20 ''C0011849'' 0.5 ''T033'']] True) example_env)
     = Inr (document (snd (call example_hash
      (example_component [[example_match 12 29 ''C0011860'' 0.95 ''T047''],
                          [example_match 12 20 ''C0011849'' 0.5 ''T033'']] True) example_env)))
   \<and> tokens (document (snd (call example_hash
      (example_component [[example_match 12 29 ''C0011860'' 0.95 ''T047''],
                          [example_match 12 20 ''C0011849'' 0.5 ''T033'']] True) example_env)))
     = tokens (document example_env)
   \<and> length (stdout (snd (call example_hash
      (example_component [[example_match 12 29 ''C0011860'' 0.95 ''T047''],
                          [example_match 12 20 ''C0011849'' 0.5 ''T033'']] True) example_env))) = 1
   \<and> length (ents (document (snd (call example_hash
      (example_component [[example_match 12 29 ''C0011860'' 0.95 ''T047''],
                          [example_match 12 20 ''C0011849'' 0.5 ''T033'']] True) example_env)))) = 1
   \<and> (\<exists>ps. stdout (snd (call example_hash
      (example_component [[example_match 12 29 ''C0011860'' 0.95 ''T047''],
                          [example_match 12 20 ''C0011849'' 0.5 ''T033'']] True) example_env))
        = stdout example_env @ ps \<and>
      length ps + length (ents (document (snd (call example_hash
      (example_component [[example_match 12 29 ''C0011860'' 0.95 ''T047''],
                          [example_match 12 20 ''C0011849'' 0.5 ''T033'']] True) example_env))))
        = length (ents (document example_env)) + 2)"
proof -
  let ?self = "example_component [[example_match 12 29 ''C0011860'' 0.95 ''T047''],
                          [example_match 12 20 ''C0011849'' 0.5 ''T033'']] True"
  have ok: "doc_ents_ok (ents (document example_env))"
    by (simp add: doc_ents_ok_def example_env_def)
  have ret: "\<exists>d. fst (call example_hash ?self example_env) = Inr d"
    by (simp add: example_defs)
  have n: "length (filter (entity_candidate (tokens (document example_env)) example_hash)
      (concat (quickumls_match ?self (document example_env) (best_match ?self)
         (ignore_syntax ?self)))) = 2"
    by (simp add: entity_candidate_def example_defs)
  have l: "length (stdout (snd (call example_hash ?self example_env))) = 1"
    "length (ents (document (snd (call example_hash ?self example_env)))) = 1"
    by (simp_all add: example_defs)
  from call_returns_document_only [of example_hash ?self example_env] ok ret
  have "fst (call example_hash ?self example_env)
      = Inr (document (snd (call example_hash ?self example_env)))"
    and "tokens (document (snd (call example_hash ?self example_env))) = tokens (document example_env)"
    and "\<exists>ps. stdout (snd (call example_hash ?self example_env)) = stdout example_env @ ps \<and>
      length ps + length (ents (document (snd (call example_hash ?self example_env))))
        = length (ents (document example_env)) +
          length (filter (entity_candidate (tokens (document example_env)) example_hash)
            (concat (quickumls_match ?self (document example_env) (best_match ?self)
               (ignore_syntax ?self))))"
    by blast+
  with ok l n show ?thesis by simp
qed

text \<open>
  The claim as the specification states it has the reports in the returned value. Here a
  batch with a conflict (the same match twice) and a batch without one return the same
  value; they differ in the standard output only.
\<close>

theorem returned_value_without_reports_counterexample:
  "fst (call example_hash
     (example_component [[example_match 12 29 ''C0011860'' 0.95 ''T047'',
                          example_match 12 29 ''C0011860'' 0.95 ''T047'']] True) example_env)
   = fst (call example_hash
     (example_component [[example_match 12 29 ''C0011860'' 0.95 ''T047'']] True) example_env)
   \<and> stdout (snd (call example_hash
     (example_component [[example_match 12 29 ''C0011860'' 0.95 ''T047'',
                          example_match 12 29 ''C0011860'' 0.95 ''T047'']] True) example_env))
     = [\<lparr>p_token = 2, p_start = 2, p_end = 4\<rparr>]
   \<and> stdout (snd (call example_hash
     (example_component [[example_match 12 29 ''C0011860'' 0.95 ''T047'']] True) example_env)) = []"
  by (simp add: example_defs)

subsection \<open>The metadata of an entity\<close>

text \<open>
  When the span of a match with a label other than 0 is accepted, it is an entity of the
  document with the label of the code of the match, and reading its two attributes right
  after gives the similarity and the semantic types of the match.
\<close>

theorem committed_span_carries_metadata:
  assumes "char_span (tokens (document w)) (m_start m) (m_end m) (h (m_cui m)) = Inr (Some sp)"
    and "check_spans {} (labelled (ents (document w) @ [sp])) = None"
    and "span_start sp < span_end sp"
    and "h (m_cui m) \<noteq> 0"
  shows "sp \<in> set (ents (document (snd (loop_body h w m))))
       \<and> span_label sp = h (m_cui m)
       \<and> get_similarity (document (snd (loop_body h w m))) sp = Some (m_similarity m)
       \<and> get_semtypes (document (snd (loop_body h w m))) sp = Some (m_semtypes m)"
  using loop_body_commit [of w m h sp] assms char_span_label [of _ _ _ _ sp]
  by (simp add: annotated_def get_similarity_def get_semtypes_def set_similarity_def
      set_semtypes_def labelled_snoc)

theorem committed_span_carries_metadata_witness:
  "char_span (tokens (document example_env))
      (m_start (example_match 12 29 ''C0011860'' 0.95 ''T047''))
      (m_end (example_match 12 29 ''C0011860'' 0.95 ''T047''))
      (example_hash (m_cui (example_match 12 29 ''C0011860'' 0.95 ''T047'')))
     = Inr (Some \<lparr>span_start = 2, span_end = 4, span_label = example_hash ''C0011860''\<rparr>)
   \<and> check_spans {} (labelled (ents (document example_env) @
        [\<lparr>span_start = 2, span_end = 4, span_label = example_hash ''C0011860''\<rparr>])) = None
   \<and> (2::nat) < 4
   \<and> example_hash (m_cui (example_match 12 29 ''C0011860'' 0.95 ''T047'')) \<noteq> 0
   \<and> get_similarity (document (snd (loop_body example_hash example_env
          (example_match 12 29 ''C0011860'' 0.95 ''T047''))))
        \<lparr>span_start = 2, span_end = 4, span_label = example_hash ''C0011860''\<rparr>
       = Some (m_similarity (example_match 12 29 ''C0011860'' 0.95 ''T047''))
   \<and> get_semtypes (document (snd (loop_body example_hash example_env
          (example_match 12 29 ''C0011860'' 0.95 ''T047''))))
        \<lparr>span_start = 2, span_end = 4, span_label = example_hash ''C0011860''\<rparr>
       = Some (m_semtypes (example_match 12 29 ''C0011860'' 0.95 ''T047''))"
proof -
  let ?m = "example_match 12 29 ''C0011860'' 0.95 ''T047''"
  let ?sp = "\<lparr>span_start = 2, span_end = 4, span_label = example_hash ''C0011860''\<rparr>"
  have a: "char_span (tokens (document example_env)) (m_start ?m) (m_end ?m)
      (example_hash (m_cui ?m)) = Inr (Some ?sp)"
    by (simp add: example_defs)
  have b: "check_spans {} (labelled (ents (document example_env) @ [?sp])) = None"
    by (simp add: example_defs)
  have c: "span_start ?sp < span_end ?sp" "(2::nat) < 4" "example_hash (m_cui ?m) \<noteq> 0"
    by (simp_all add: example_defs)
  from committed_span_carries_metadata [of example_env ?m example_hash ?sp] a b c
  show ?thesis by blast
qed

text \<open>
  C7 fails on the code. Lines 103 and 104 write the attributes before the assignment of
  \<open>doc.ents\<close> is tried, and the attributes are kept under the character offsets of the
  span; so a match that is dropped writes over the attributes of the entity with the same
  offsets. Here the first match is committed with similarity 0.95 and type T047, the
  second one is dropped, and the entity ends with similarity 0.5 and type T033.
\<close>

theorem dropped_duplicate_overwrites_metadata:
  "ents (document (snd (call example_hash
     (example_component [[example_match 12 29 ''C0011860'' 0.95 ''T047'',
                          example_match 12 29 ''C0011849'' 0.5 ''T033'']] True) example_env)))
     = [\<lparr>span_start = 2, span_end = 4, span_label = example_hash ''C0011860''\<rparr>]
   \<and> get_similarity (document (snd (call example_hash
     (example_component [[example_match 12 29 ''C0011860'' 0.95 ''T047'',
                          example_match 12 29 ''C0011849'' 0.5 ''T033'']] True) example_env)))
       \<lparr>span_start = 2, span_end = 4, span_label = example_hash ''C0011860''\<rparr> = Some 0.5
   \<and> get_semtypes (document (snd (call example_hash
     (example_component [[example_match 12 29 ''C0011860'' 0.95 ''T047'',
                          example_match 12 29 ''C0011849'' 0.5 ''T033'']] True) example_env)))
       \<lparr>span_start = 2, span_end = 4, span_label = example_hash ''C0011860''\<rparr> = Some {''T033''}
   \<and> get_similarity (document (snd (call example_hash
     (example_component [[example_match 12 29 ''C0011860'' 0.95 ''T047'']] True) example_env)))
       \<lparr>span_start = 2, span_end = 4, span_label = example_hash ''C0011860''\<rparr> = Some 0.95"
  by (simp add: example_defs)

end
